theory Spec2Isabelle
  imports Complex_Main "HOL-Library.Word" "HOL-Library.Multiset"
begin

section \<open>Doubles\<close>

text \<open>
  The filter computes on C++ \<^verbatim>\<open>double\<close>. A finite double is modelled by the real number
  it stands for; the three special values of IEEE 754 are kept, and every operation
  treats them as the C++ operation does. An arithmetic result beyond the largest double
  is an infinity. What is left out is rounding (a result within the range is exact) and
  the sign of zero. HOL's own \<open>ln 0\<close> and \<open>x / 0\<close> are never reached with a zero argument:
  those cases are branches of the model.
\<close>

datatype dbl = Finite real | PosInf | NegInf | NaN

text \<open>The largest double, \<open>(2 - 2^-52) * 2^1023\<close>, and the result of an operation on reals.\<close>

definition DBL_MAX :: real where
  "DBL_MAX = 2 ^ 1024 - 2 ^ 971"

definition overflow :: "real \<Rightarrow> dbl" where
  "overflow r = (if DBL_MAX < r then PosInf else if r < - DBL_MAX then NegInf else Finite r)"

fun dneg :: "dbl \<Rightarrow> dbl" where
  "dneg (Finite x) = Finite (- x)"
| "dneg PosInf = NegInf"
| "dneg NegInf = PosInf"
| "dneg NaN = NaN"

text \<open>\<^verbatim>\<open>a < b\<close> and \<^verbatim>\<open>a == b\<close>: false as soon as one side is NaN.\<close>

fun dless :: "dbl \<Rightarrow> dbl \<Rightarrow> bool" where
  "dless (Finite x) (Finite y) = (x < y)"
| "dless (Finite x) PosInf = True"
| "dless NegInf (Finite y) = True"
| "dless NegInf PosInf = True"
| "dless _ _ = False"

fun deq :: "dbl \<Rightarrow> dbl \<Rightarrow> bool" where
  "deq (Finite x) (Finite y) = (x = y)"
| "deq PosInf PosInf = True"
| "deq NegInf NegInf = True"
| "deq _ _ = False"

text \<open>\<^verbatim>\<open>std::max(a, b)\<close> is \<^verbatim>\<open>(a < b) ? b : a\<close>.\<close>

definition std_max :: "dbl \<Rightarrow> dbl \<Rightarrow> dbl" where
  "std_max a b = (if dless a b then b else a)"

fun dadd :: "dbl \<Rightarrow> dbl \<Rightarrow> dbl" where
  "dadd (Finite x) (Finite y) = overflow (x + y)"
| "dadd NaN _ = NaN"
| "dadd _ NaN = NaN"
| "dadd PosInf NegInf = NaN"
| "dadd NegInf PosInf = NaN"
| "dadd PosInf _ = PosInf"
| "dadd _ PosInf = PosInf"
| "dadd NegInf _ = NegInf"
| "dadd _ NegInf = NegInf"

definition dsub :: "dbl \<Rightarrow> dbl \<Rightarrow> dbl" where
  "dsub a b = dadd a (dneg b)"

text \<open>The product of a finite value and an infinity: NaN at 0, else by the signs.\<close>

definition inf_times :: "bool \<Rightarrow> real \<Rightarrow> dbl" where
  "inf_times positive x =
     (if x = 0 then NaN else if (0 < x) = positive then PosInf else NegInf)"

fun dmul :: "dbl \<Rightarrow> dbl \<Rightarrow> dbl" where
  "dmul (Finite x) (Finite y) = overflow (x * y)"
| "dmul NaN _ = NaN"
| "dmul _ NaN = NaN"
| "dmul (Finite x) PosInf = inf_times True x"
| "dmul (Finite x) NegInf = inf_times False x"
| "dmul PosInf (Finite y) = inf_times True y"
| "dmul NegInf (Finite y) = inf_times False y"
| "dmul PosInf PosInf = PosInf"
| "dmul NegInf NegInf = PosInf"
| "dmul PosInf NegInf = NegInf"
| "dmul NegInf PosInf = NegInf"

fun ddiv :: "dbl \<Rightarrow> dbl \<Rightarrow> dbl" where
  "ddiv (Finite x) (Finite y) =
     (if y = 0 then (if x = 0 then NaN else if 0 < x then PosInf else NegInf)
      else overflow (x / y))"
| "ddiv NaN _ = NaN"
| "ddiv _ NaN = NaN"
| "ddiv (Finite x) _ = Finite 0"
| "ddiv PosInf (Finite y) = (if 0 \<le> y then PosInf else NegInf)"
| "ddiv NegInf (Finite y) = (if 0 \<le> y then NegInf else PosInf)"
| "ddiv _ _ = NaN"

fun std_sqrt :: "dbl \<Rightarrow> dbl" where
  "std_sqrt (Finite x) = (if x < 0 then NaN else Finite (sqrt x))"
| "std_sqrt PosInf = PosInf"
| "std_sqrt _ = NaN"

text \<open>\<^verbatim>\<open>std::log(0)\<close> is minus infinity, and \<^verbatim>\<open>std::log\<close> of a negative value is NaN.\<close>

fun std_log :: "dbl \<Rightarrow> dbl" where
  "std_log (Finite x) = (if x = 0 then NegInf else if x < 0 then NaN else Finite (ln x))"
| "std_log PosInf = PosInf"
| "std_log _ = NaN"

fun std_fabs :: "dbl \<Rightarrow> dbl" where
  "std_fabs (Finite x) = Finite \<bar>x\<bar>"
| "std_fabs NaN = NaN"
| "std_fabs _ = PosInf"

fun std_cbrt :: "dbl \<Rightarrow> dbl" where
  "std_cbrt (Finite x) = Finite (root 3 x)"
| "std_cbrt d = d"

text \<open>\<^verbatim>\<open>std::pow(x, 3)\<close>: an odd integer exponent keeps the sign of an infinity.\<close>

fun std_pow3 :: "dbl \<Rightarrow> dbl" where
  "std_pow3 (Finite x) = overflow (x ^ 3)"
| "std_pow3 d = d"

text \<open>A value of the closed unit interval.\<close>

fun in_unit_interval :: "dbl \<Rightarrow> bool" where
  "in_unit_interval (Finite x) = (0 \<le> x \<and> x \<le> 1)"
| "in_unit_interval _ = False"

fun std_atan :: "dbl \<Rightarrow> dbl" where
  "std_atan (Finite x) = Finite (arctan x)"
| "std_atan PosInf = Finite (pi / 2)"
| "std_atan NegInf = Finite (- pi / 2)"
| "std_atan NaN = NaN"

section \<open>The data the filter works on\<close>

type_synonym PointId = nat
type_synonym DimId = nat
type_synonym vec3 = "dbl \<times> dbl \<times> dbl"

text \<open>The three columns of the solver's eigenvector matrix: \<open>col 0\<close>, \<open>col 1\<close>, \<open>col 2\<close>.\<close>

type_synonym Matrix3d = "vec3 \<times> vec3 \<times> vec3"

fun map3 :: "(dbl \<Rightarrow> dbl) \<Rightarrow> vec3 \<Rightarrow> vec3" where
  "map3 g (a, b, c) = (g a, g b, g c)"

text \<open>
  A point is its fields, by dimension id; a view is its size and its points.
  \<^verbatim>\<open>p.setField(dim, v)\<close> changes one field of one point.
\<close>

type_synonym PointRef = "DimId \<Rightarrow> dbl"

record PointView =
  npoints :: "64 word"
  point :: "PointId \<Rightarrow> PointRef"

definition setField :: "DimId \<Rightarrow> dbl \<Rightarrow> PointRef \<Rightarrow> PointRef" where
  "setField d v p = p(d := v)"

text \<open>
  \<^verbatim>\<open>Arg\<close> objects live in the \<^verbatim>\<open>ProgramArgs\<close>, under their option names; an \<^verbatim>\<open>Arg*\<close>
  member of the filter is the name it points to, or \<open>None\<close> while nothing was assigned
  to it. Reading through it fails when it points to no \<^verbatim>\<open>Arg\<close>.
\<close>

record Arg =
  arg_set :: bool

type_synonym ProgramArgs = "string \<rightharpoonup> Arg"

text \<open>
  What can go wrong: an error thrown by \<^verbatim>\<open>throwError\<close>, a read through a pointer that
  points to no object, and the \<^verbatim>\<open>std::length_error\<close> of a vector that cannot be allocated.
\<close>

datatype error = pdal_error string | invalid_pointer | length_error

definition is_set :: "ProgramArgs \<Rightarrow> string option \<Rightarrow> error + bool" where
  "is_set args ptr =
     (case ptr of
        None \<Rightarrow> Inl invalid_pointer
      | Some name \<Rightarrow>
          (case args name of None \<Rightarrow> Inl invalid_pointer | Some a \<Rightarrow> Inr (arg_set a)))"

text \<open>
  The members of the class, as the \<^verbatim>\<open>.cpp\<close> file uses them (\<open>m_mode\<close> is compared with
  and assigned strings there). \<^verbatim>\<open>int\<close> members are integers; where one is added to or
  converted to an unsigned 64-bit value, the 32-bit sum and the conversion are written
  out.
\<close>

record CovarianceFeaturesFilter =
  m_knn :: int
  m_threads :: int
  m_featureSet :: string
  m_extraDims :: "string \<rightharpoonup> DimId"
  m_stride :: "64 word"
  m_radius :: dbl
  m_minK :: int
  m_featuresArg :: "string option"
  m_features :: "string list"
  m_mode :: string
  m_kopt :: DimId
  m_ropt :: DimId
  m_radiusArg :: "string option"
  m_optimal :: bool

text \<open>
  What the filter calls and does not implement: the spatial index built over the view,
  the covariance of a neighbourhood, the eigen-solver, and the conversion of a field to
  \<^verbatim>\<open>uint64_t\<close>. They read point positions only, which the filter never writes, so they
  are functions of point ids.
\<close>

datatype ComputationInfo = Success | NumericalIssue | NoConvergence | InvalidInput

record SelfAdjointEigenSolver =
  info :: ComputationInfo
  eigenvalues :: vec3
  eigenvectors :: Matrix3d

record collaborators =
  neighbors :: "PointId \<Rightarrow> 64 word \<Rightarrow> 64 word \<Rightarrow> PointId list"
  radius :: "PointId \<Rightarrow> dbl \<Rightarrow> PointId list"
  computeCovariance :: "PointId list \<Rightarrow> Matrix3d"
  solve :: "Matrix3d \<Rightarrow> SelfAdjointEigenSolver"
  as_uint64 :: "dbl \<Rightarrow> 64 word"

section \<open>Options and dimensions\<close>

text \<open>
  \<^verbatim>\<open>args.add(name, description, var, default)\<close> registers an unset \<^verbatim>\<open>Arg\<close> and gives the
  variable its default. Only the \<^verbatim>\<open>Arg\<close> of \<open>features\<close> is kept in a member.
\<close>

definition add :: "string \<Rightarrow> ProgramArgs \<Rightarrow> ProgramArgs" where
  "add name args = args(name \<mapsto> \<lparr>arg_set = False\<rparr>)"

definition addArgs ::
  "ProgramArgs \<Rightarrow> CovarianceFeaturesFilter \<Rightarrow> ProgramArgs \<times> CovarianceFeaturesFilter" where
  "addArgs args f =
     (let args = add ''knn'' args; f = f\<lparr>m_knn := 10\<rparr>;
          args = add ''threads'' args; f = f\<lparr>m_threads := 1\<rparr>;
          args = add ''feature_set'' args; f = f\<lparr>m_featureSet := ''Dimensionality''\<rparr>;
          args = add ''stride'' args; f = f\<lparr>m_stride := 1\<rparr>;
          args = add ''radius'' args; f = f\<lparr>m_radius := Finite 0\<rparr>;
          args = add ''min_k'' args; f = f\<lparr>m_minK := 3\<rparr>;
          args = add ''features'' args;
          f = f\<lparr>m_features := [], m_featuresArg := Some ''features''\<rparr>;
          args = add ''mode'' args; f = f\<lparr>m_mode := []\<rparr>;
          args = add ''optimized'' args; f = f\<lparr>m_optimal := False\<rparr>
      in (args, f))"

text \<open>
  The loops of \<^verbatim>\<open>addDimensions\<close>: each name is registered with the layout (every one as
  a \<^verbatim>\<open>Double\<close>) and the id is stored under the name.
\<close>

fun register_dims ::
  "('l \<Rightarrow> string \<Rightarrow> DimId \<times> 'l) \<Rightarrow> string list \<Rightarrow> (string \<rightharpoonup> DimId) \<times> 'l \<Rightarrow>
   (string \<rightharpoonup> DimId) \<times> 'l" where
  "register_dims registerOrAssignDim [] (m, layout) = (m, layout)"
| "register_dims registerOrAssignDim (name # names) (m, layout) =
     (let (d, layout') = registerOrAssignDim layout name
      in register_dims registerOrAssignDim names (m(name \<mapsto> d), layout'))"

definition dimensionality_features :: "string list" where
  "dimensionality_features = [''Linearity'', ''Planarity'', ''Scattering'', ''Verticality'']"

definition all_features :: "string list" where
  "all_features =
     [''Linearity'', ''Planarity'', ''Scattering'', ''Verticality'', ''Omnivariance'',
      ''Sum'', ''Eigenentropy'', ''Anisotropy'', ''SurfaceVariation'',
      ''DemantkeVerticality'', ''Density'']"

definition addDimensions ::
  "('l \<Rightarrow> string \<Rightarrow> DimId \<times> 'l) \<Rightarrow> ProgramArgs \<Rightarrow> CovarianceFeaturesFilter \<Rightarrow> 'l \<Rightarrow>
   error + (CovarianceFeaturesFilter \<times> 'l)" where
  "addDimensions registerOrAssignDim args f layout =
     (case is_set args (m_featuresArg f) of
        Inl e \<Rightarrow> Inl e
      | Inr True \<Rightarrow>
          (let (m, layout') =
                 register_dims registerOrAssignDim (m_features f) (m_extraDims f, layout)
           in Inr (f\<lparr>m_extraDims := m\<rparr>, layout'))
      | Inr False \<Rightarrow>
          (if m_featureSet f = ''Dimensionality'' then
             (let f = f\<lparr>m_mode := ''SQRT''\<rparr>;
                  (m, layout') =
                    register_dims registerOrAssignDim dimensionality_features
                      (m_extraDims f, layout)
              in Inr (f\<lparr>m_extraDims := m\<rparr>, layout'))
           else
             (let (m, layout') =
                    register_dims registerOrAssignDim all_features (m_extraDims f, layout)
              in Inr (f\<lparr>m_extraDims := m\<rparr>, layout'))))"

text \<open>\<^verbatim>\<open>Dimension::Id::Unknown\<close>, and the check of \<^verbatim>\<open>prepared\<close>.\<close>

definition Unknown :: DimId where
  "Unknown = 0"

definition no_dimension :: "string \<Rightarrow> error" where
  "no_dimension name =
     pdal_error (''No dimension '' @ [CHR 0x22] @ name @ [CHR 0x22] @ ''.'')"

definition prepared ::
  "('l \<Rightarrow> string \<Rightarrow> DimId) \<Rightarrow> CovarianceFeaturesFilter \<Rightarrow> 'l \<Rightarrow>
   error + CovarianceFeaturesFilter" where
  "prepared findDim f layout =
     (if m_optimal f then
        (let f = f\<lparr>m_kopt := findDim layout ''OptimalKNN''\<rparr> in
         if m_kopt f = Unknown then Inl (no_dimension ''OptimalKNN'')
         else
           (let f = f\<lparr>m_ropt := findDim layout ''OptimalRadius''\<rparr> in
            if m_ropt f = Unknown then Inl (no_dimension ''OptimalRadius'') else Inr f))
      else Inr f)"

section \<open>Eigenvalues and feature formulas\<close>

text \<open>
  The solver returns its eigenvalues in increasing order; \<open>lambda\<close> takes them from the
  last to the first, each through \<^verbatim>\<open>std::max(., 0.0)\<close>, and \<open>sum\<close> is their
  \<^verbatim>\<open>std::accumulate\<close> from \<open>0.0\<close>.
\<close>

fun clamped_lambda :: "vec3 \<Rightarrow> vec3" where
  "clamped_lambda (ev0, ev1, ev2) =
     (std_max ev2 (Finite 0), std_max ev1 (Finite 0), std_max ev0 (Finite 0))"

fun accumulate :: "vec3 \<Rightarrow> dbl" where
  "accumulate (l0, l1, l2) = dadd (dadd (dadd (Finite 0) l0) l1) l2"

text \<open>The two \<^verbatim>\<open>std::transform\<close> calls, chosen by \<open>m_mode\<close>; any other mode changes nothing.\<close>

definition scale :: "string \<Rightarrow> dbl \<Rightarrow> vec3 \<Rightarrow> vec3" where
  "scale mode sum_ev lambda =
     (if mode = ''SQRT'' then map3 std_sqrt lambda
      else if mode = ''NORM'' then map3 (\<lambda>v. ddiv v sum_ev) lambda
      else lambda)"

fun linearity :: "vec3 \<Rightarrow> dbl" where
  "linearity (l0, l1, l2) = ddiv (dsub l0 l1) l0"

fun planarity :: "vec3 \<Rightarrow> dbl" where
  "planarity (l0, l1, l2) = ddiv (dsub l1 l2) l0"

fun scattering :: "vec3 \<Rightarrow> dbl" where
  "scattering (l0, l1, l2) = ddiv l2 l0"

text \<open>
  One component of \<open>unary_vector\<close>; \<open>v1\<close>, \<open>v2\<close>, \<open>v3\<close> are the columns 2, 1, 0 of the
  eigenvector matrix.
\<close>

fun unary :: "vec3 \<Rightarrow> dbl \<Rightarrow> dbl \<Rightarrow> dbl \<Rightarrow> dbl" where
  "unary (l0, l1, l2) v1i v2i v3i =
     dadd (dadd (dmul l0 (std_fabs v1i)) (dmul l1 (std_fabs v2i))) (dmul l2 (std_fabs v3i))"

fun verticality :: "vec3 \<Rightarrow> Matrix3d \<Rightarrow> dbl" where
  "verticality lambda ((c0x, c0y, c0z), (c1x, c1y, c1z), (c2x, c2y, c2z)) =
     (let u0 = unary lambda c2x c1x c0x;
          u1 = unary lambda c2y c1y c0y;
          u2 = unary lambda c2z c1z c0z;
          norm = dadd (dadd (dadd (Finite 0) (dmul u0 u0)) (dmul u1 u1)) (dmul u2 u2);
          norm = std_sqrt norm
      in ddiv u2 norm)"

fun omnivariance :: "vec3 \<Rightarrow> dbl" where
  "omnivariance (l0, l1, l2) = std_cbrt (dmul (dmul l2 l1) l0)"

fun eigenentropy :: "vec3 \<Rightarrow> dbl" where
  "eigenentropy (l0, l1, l2) =
     dneg (dadd (dadd (dmul l2 (std_log l2)) (dmul l1 (std_log l1))) (dmul l0 (std_log l0)))"

fun anisotropy :: "vec3 \<Rightarrow> dbl" where
  "anisotropy (l0, l1, l2) = ddiv (dsub l0 l2) l0"

fun surfaceVariation :: "vec3 \<Rightarrow> dbl \<Rightarrow> dbl" where
  "surfaceVariation (l0, l1, l2) sum_ev = ddiv l2 sum_ev"

fun demantkeVerticality :: "Matrix3d \<Rightarrow> dbl" where
  "demantkeVerticality ((c0x, c0y, c0z), c1, c2) = dsub (Finite 1) (std_fabs c0z)"

text \<open>
  The density: \<^verbatim>\<open>(kopt + 1) / ((4 / 3) * pi * std::pow(ropt, 3))\<close>, where \<^verbatim>\<open>4 / 3\<close> is a
  division of two \<^verbatim>\<open>int\<close> literals, \<open>pi\<close> is \<^verbatim>\<open>4.0 * std::atan(1.0)\<close> and \<open>kopt\<close> is read
  as \<^verbatim>\<open>uint64_t\<close>, then converted.
\<close>

definition density :: "collaborators \<Rightarrow> CovarianceFeaturesFilter \<Rightarrow> PointRef \<Rightarrow> dbl" where
  "density ext f p =
     (let pi' = dmul (Finite 4) (std_atan (Finite 1));
          kopt = Finite (real (unat (as_uint64 ext (p (m_kopt f)))));
          ropt = p (m_ropt f)
      in ddiv (dadd kopt (Finite 1))
           (dmul (dmul (Finite (real_of_int (4 div 3))) pi') (std_pow3 ropt)))"

section \<open>Processing one point\<close>

text \<open>
  \<^verbatim>\<open>if (m_extraDims.count(name)) p.setField(m_extraDims[name], v)\<close>.
\<close>

definition set_feature ::
  "CovarianceFeaturesFilter \<Rightarrow> string \<Rightarrow> dbl \<Rightarrow> PointRef \<Rightarrow> PointRef" where
  "set_feature f name v p =
     (case m_extraDims f name of None \<Rightarrow> p | Some d \<Rightarrow> setField d v p)"

definition write_features ::
  "CovarianceFeaturesFilter \<Rightarrow> collaborators \<Rightarrow> vec3 \<Rightarrow> dbl \<Rightarrow> Matrix3d \<Rightarrow> PointRef \<Rightarrow>
   PointRef" where
  "write_features f ext lambda sum_ev eigenVectors p =
     (let p = set_feature f ''Linearity'' (linearity lambda) p;
          p = set_feature f ''Planarity'' (planarity lambda) p;
          p = set_feature f ''Scattering'' (scattering lambda) p;
          p = set_feature f ''Verticality'' (verticality lambda eigenVectors) p;
          p = set_feature f ''Omnivariance'' (omnivariance lambda) p;
          p = set_feature f ''Sum'' sum_ev p;
          p = set_feature f ''Eigenentropy'' (eigenentropy lambda) p;
          p = set_feature f ''Anisotropy'' (anisotropy lambda) p;
          p = set_feature f ''SurfaceVariation'' (surfaceVariation lambda sum_ev) p;
          p = set_feature f ''DemantkeVerticality'' (demantkeVerticality eigenVectors) p
      in if m_optimal f then set_feature f ''Density'' (density ext f p) p else p)"

text \<open>The sum of two \<^verbatim>\<open>int\<close>: 32 bits, two's complement.\<close>

definition int_add :: "int \<Rightarrow> int \<Rightarrow> int" where
  "int_add a b = sint (word_of_int (a + b) :: 32 word)"

text \<open>
  The neighbours of a point: \<open>None\<close> is the silent return of the radius search that
  finds fewer than \<^verbatim>\<open>(size_t)m_minK\<close> points. The count \<^verbatim>\<open>m_knn + 1\<close> is an \<^verbatim>\<open>int\<close>,
  converted to 64 bits for the query.
\<close>

definition find_neighbors ::
  "CovarianceFeaturesFilter \<Rightarrow> ProgramArgs \<Rightarrow> collaborators \<Rightarrow> PointRef \<Rightarrow> PointId \<Rightarrow>
   error + PointId list option" where
  "find_neighbors f args ext p id' =
     (if m_optimal f then Inr (Some (neighbors ext id' (as_uint64 ext (p (m_kopt f))) 1))
      else
        (case is_set args (m_radiusArg f) of
           Inl e \<Rightarrow> Inl e
         | Inr True \<Rightarrow>
             (let ids = radius ext id' (m_radius f) in
              if length ids < unat (word_of_int (m_minK f) :: 64 word) then Inr None
              else Inr (Some ids))
         | Inr False \<Rightarrow>
             Inr (Some (neighbors ext id' (word_of_int (int_add (m_knn f) 1)) (m_stride f)))))"

definition cannot_decompose :: error where
  "cannot_decompose = pdal_error ''Cannot perform eigen decomposition.''"

definition all_zero :: error where
  "all_zero =
     pdal_error (''Eigenvalues are all 0. Can'' @ [CHR 0x27] @ ''t compute local features.'')"

text \<open>
  \<open>setDimensionality\<close> works on the view in place and may throw.
  \<open>setDimensionality_exc\<close> is the function of the source: it gives the view as the call
  leaves it, and the error if one is thrown. \<open>setDimensionality\<close> is what the caller
  goes on with: the error, or the view.
\<close>

definition setDimensionality_exc ::
  "CovarianceFeaturesFilter \<Rightarrow> ProgramArgs \<Rightarrow> collaborators \<Rightarrow> PointView \<Rightarrow> PointId \<Rightarrow>
   PointView \<times> error option" where
  "setDimensionality_exc f args ext view id' =
     (let p = point view id' in
      case find_neighbors f args ext p id' of
        Inl e \<Rightarrow> (view, Some e)
      | Inr None \<Rightarrow> (view, None)
      | Inr (Some ids) \<Rightarrow>
          (let B = computeCovariance ext ids;
               solver = solve ext B
           in if info solver \<noteq> Success then (view, Some cannot_decompose)
              else
                (let lambda = clamped_lambda (eigenvalues solver);
                     sum_ev = accumulate lambda
                 in if deq (fst lambda) (Finite 0) then (view, Some all_zero)
                    else
                      (let lambda = scale (m_mode f) sum_ev lambda;
                           p = write_features f ext lambda sum_ev (eigenvectors solver) p
                       in (view\<lparr>point := (point view)(id' := p)\<rparr>, None)))))"

definition setDimensionality ::
  "CovarianceFeaturesFilter \<Rightarrow> ProgramArgs \<Rightarrow> collaborators \<Rightarrow> PointView \<Rightarrow> PointId \<Rightarrow>
   error + PointView" where
  "setDimensionality f args ext view id' =
     (case setDimensionality_exc f args ext view id' of
        (view', Some e) \<Rightarrow> Inl e
      | (view', None) \<Rightarrow> Inr view')"


section \<open>Dispatching the points to threads\<close>





text \<open>
  The loop a thread runs. An error thrown by \<open>setDimensionality\<close> leaves the loop; nothing
  in the thread catches it.
\<close>

fun process_points ::
  "CovarianceFeaturesFilter \<Rightarrow> ProgramArgs \<Rightarrow> collaborators \<Rightarrow> PointId list \<Rightarrow> PointView \<Rightarrow>
   error + PointView" where
  "process_points f args ext [] view = Inr view"
| "process_points f args ext (i # ids) view =
     (case setDimensionality f args ext view i of
        Inl e \<Rightarrow> Inl e
      | Inr view' \<Rightarrow> process_points f args ext ids view')"




section \<open>Properties of eigenvalue triples\<close>


fun descending_nonneg :: "vec3 \<Rightarrow> bool" where
  "descending_nonneg (Finite l0, Finite l1, Finite l2) = (l1 \<le> l0 \<and> l2 \<le> l1 \<and> 0 \<le> l2)"
| "descending_nonneg _ = False"

fun valid_spectrum :: "vec3 \<Rightarrow> bool" where
  "valid_spectrum (Finite l0, Finite l1, Finite l2) =
     (l1 \<le> l0 \<and> l2 \<le> l1 \<and> 0 \<le> l2 \<and> 0 < l0 \<and> l0 \<le> DBL_MAX)"
| "valid_spectrum _ = False"


section \<open>Sample configurations\<close>

text \<open>
  The filter as its constructor leaves it: the strings, the list and the map are empty,
  and no member that is a number, a flag or a pointer has an initialiser (they are zero
  here, and the pointers point to nothing).
\<close>

definition constructed :: CovarianceFeaturesFilter where
  "constructed =
     \<lparr>m_knn = 0, m_threads = 0, m_featureSet = [], m_extraDims = Map.empty, m_stride = 0,
      m_radius = Finite 0, m_minK = 0, m_featuresArg = None, m_features = [], m_mode = [],
      m_kopt = 0, m_ropt = 0, m_radiusArg = None, m_optimal = False\<rparr>"

definition default_config :: "ProgramArgs \<times> CovarianceFeaturesFilter" where
  "default_config = addArgs Map.empty constructed"

text \<open>A layout that is the list of its names; a dimension's id is its place in the list.\<close>

definition sample_registerOrAssignDim :: "string list \<Rightarrow> string \<Rightarrow> DimId \<times> string list" where
  "sample_registerOrAssignDim layout name =
     (if name \<in> set layout then (Suc (length (takeWhile (\<lambda>n. n \<noteq> name) layout)), layout)
      else (Suc (length layout), layout @ [name]))"

text \<open>
  Collaborators whose solver answers with a given status and given eigenvalues, whose
  radius search finds two points and whose nearest-neighbour search finds three.
\<close>

definition sample_collaborators :: "ComputationInfo \<Rightarrow> vec3 \<Rightarrow> collaborators" where
  "sample_collaborators status ev =
     \<lparr>neighbors = (\<lambda>i k s. [i, Suc i, Suc (Suc i)]),
      radius = (\<lambda>i r. [i, Suc i]),
      computeCovariance =
        (\<lambda>ids. ((Finite 0, Finite 0, Finite 0), (Finite 0, Finite 0, Finite 0),
                 (Finite 0, Finite 0, Finite 0))),
      solve =
        (\<lambda>B. \<lparr>info = status, eigenvalues = ev,
               eigenvectors =
                 ((Finite 0, Finite 0, Finite 1), (Finite 0, Finite 1, Finite 0),
                  (Finite 1, Finite 0, Finite 0))\<rparr>),
      as_uint64 = (\<lambda>d. case d of Finite r \<Rightarrow> word_of_int \<lfloor>r\<rfloor> | _ \<Rightarrow> 0)\<rparr>"

text \<open>Four points whose fields are all 0, but for the field 2, which is 1.\<close>

definition sample_view :: PointView where
  "sample_view = \<lparr>npoints = 4, point = (\<lambda>i. (\<lambda>d. Finite 0)(2 := Finite 1))\<rparr>"

text \<open>The eleven features, each with a dimension of its own.\<close>

definition sample_dims :: "string \<rightharpoonup> DimId" where
  "sample_dims =
     [''Linearity'' \<mapsto> 10, ''Planarity'' \<mapsto> 11, ''Scattering'' \<mapsto> 12, ''Verticality'' \<mapsto> 13,
      ''Omnivariance'' \<mapsto> 14, ''Sum'' \<mapsto> 15, ''Eigenentropy'' \<mapsto> 16, ''Anisotropy'' \<mapsto> 17,
      ''SurfaceVariation'' \<mapsto> 18, ''DemantkeVerticality'' \<mapsto> 19, ''Density'' \<mapsto> 20]"

text \<open>
  Two configurations with these dimensions. In the first \<open>m_radiusArg\<close> points to the
  \<^verbatim>\<open>Arg\<close> of \<open>radius\<close>, which is set; the second reads the fields 1 and 2 of a point as
  its \<open>OptimalKNN\<close> and \<open>OptimalRadius\<close>.
\<close>

definition radius_config :: "ProgramArgs \<times> CovarianceFeaturesFilter" where
  "radius_config =
     ((fst default_config)(''radius'' \<mapsto> \<lparr>arg_set = True\<rparr>),
      (snd default_config)
        \<lparr>m_featureSet := ''all'', m_radius := Finite 2, m_radiusArg := Some ''radius'',
         m_extraDims := sample_dims\<rparr>)"

definition optimized_config :: "ProgramArgs \<times> CovarianceFeaturesFilter" where
  "optimized_config =
     (fst default_config,
      (snd default_config)
        \<lparr>m_featureSet := ''all'', m_optimal := True, m_kopt := 1, m_ropt := 2,
         m_extraDims := sample_dims\<rparr>)"

section \<open>Doubles and outcomes: properties\<close>

lemma DBL_MAX_large: "1000000 \<le> DBL_MAX"
  by (simp add: DBL_MAX_def)

lemma overflow_Finite: "\<bar>r\<bar> \<le> DBL_MAX \<Longrightarrow> overflow r = Finite r"
  by (auto simp: overflow_def)

lemma overflow_small: "\<bar>r\<bar> \<le> 1000000 \<Longrightarrow> overflow r = Finite r"
  using DBL_MAX_large by (intro overflow_Finite) linarith

lemma overflow_nonneg: "0 \<le> r \<Longrightarrow> overflow r = (if r \<le> DBL_MAX then Finite r else PosInf)"
  using DBL_MAX_large by (auto simp: overflow_def)

lemma setDimensionality_unfold:
  "setDimensionality f args ext view id' =
     (let p = point view id' in
      case find_neighbors f args ext p id' of
        Inl e \<Rightarrow> Inl e
      | Inr None \<Rightarrow> Inr view
      | Inr (Some ids) \<Rightarrow>
          (let B = computeCovariance ext ids;
               solver = solve ext B
           in if info solver \<noteq> Success then Inl cannot_decompose
              else
                (let lambda = clamped_lambda (eigenvalues solver);
                     sum_ev = accumulate lambda
                 in if deq (fst lambda) (Finite 0) then Inl all_zero
                    else
                      (let lambda = scale (m_mode f) sum_ev lambda;
                           p = write_features f ext lambda sum_ev (eigenvectors solver) p
                       in Inr (view\<lparr>point := (point view)(id' := p)\<rparr>)))))"
  by (simp add: setDimensionality_def setDimensionality_exc_def Let_def
      split: sum.splits option.splits)

section \<open>Options and dimensions: properties\<close>

lemma default_config_eq:
  "default_config =
    ([''knn'' \<mapsto> \<lparr>arg_set = False\<rparr>, ''threads'' \<mapsto> \<lparr>arg_set = False\<rparr>,
      ''feature_set'' \<mapsto> \<lparr>arg_set = False\<rparr>, ''stride'' \<mapsto> \<lparr>arg_set = False\<rparr>,
      ''radius'' \<mapsto> \<lparr>arg_set = False\<rparr>, ''min_k'' \<mapsto> \<lparr>arg_set = False\<rparr>,
      ''features'' \<mapsto> \<lparr>arg_set = False\<rparr>, ''mode'' \<mapsto> \<lparr>arg_set = False\<rparr>,
      ''optimized'' \<mapsto> \<lparr>arg_set = False\<rparr>],
     \<lparr>m_knn = 10, m_threads = 1, m_featureSet = ''Dimensionality'', m_extraDims = Map.empty,
      m_stride = 1, m_radius = Finite 0, m_minK = 3, m_featuresArg = Some ''features'',
      m_features = [], m_mode = [], m_kopt = 0, m_ropt = 0, m_radiusArg = None,
      m_optimal = False\<rparr>)"
  by (simp add: default_config_def addArgs_def Let_def constructed_def add_def)

lemma sample_dims_inj: "inj_on sample_dims (dom sample_dims)"
  by (auto simp: sample_dims_def inj_on_def split: if_splits)

lemma optimized_config_eq:
  "optimized_config =
     (fst default_config,
      \<lparr>m_knn = 10, m_threads = 1, m_featureSet = ''all'', m_extraDims = sample_dims,
       m_stride = 1, m_radius = Finite 0, m_minK = 3, m_featuresArg = Some ''features'',
       m_features = [], m_mode = [], m_kopt = 1, m_ropt = 2, m_radiusArg = None,
       m_optimal = True\<rparr>)"
  by (simp add: optimized_config_def default_config_eq)

lemma sample_neighbors:
  "find_neighbors (snd optimized_config) (fst optimized_config) (sample_collaborators st ev)
     (point sample_view 0) 0 = Inr (Some [0, 1, 2])"
  by (simp add: optimized_config_eq find_neighbors_def sample_collaborators_def)

lemma sample_solver:
  "solve (sample_collaborators st ev) B =
     \<lparr>info = st, eigenvalues = ev,
      eigenvectors =
        ((Finite 0, Finite 0, Finite 1), (Finite 0, Finite 1, Finite 0),
         (Finite 1, Finite 0, Finite 0))\<rparr>"
  by (simp add: sample_collaborators_def)

lemma addArgs_radiusArg: "m_radiusArg (snd (addArgs args f)) = m_radiusArg f"
  by (simp add: addArgs_def Let_def)

lemma addArgs_featuresArg:
  "is_set (fst (addArgs args f)) (m_featuresArg (snd (addArgs args f))) = Inr False"
  by (simp add: addArgs_def Let_def is_set_def add_def)

lemma dom_register_dims:
  "dom (fst (register_dims reg names (m, layout))) = dom m \<union> set names"
  by (induction names arbitrary: m layout) (auto simp: Let_def split: prod.splits)

lemma addDimensions_Dimensionality:
  assumes "is_set args (m_featuresArg f) = Inr False"
      and "m_featureSet f = ''Dimensionality''"
      and "addDimensions reg args f layout = Inr (f', layout')"
  shows "m_mode f' = ''SQRT''"
  using assms by (auto simp: addDimensions_def Let_def split: prod.splits)

text \<open>
  C10. When the \<open>features\<close> option is not set and \<open>feature_set\<close> is any string but
  "Dimensionality", \<open>addDimensions\<close> succeeds: it asks the layout for the eleven
  dimensions, one after the other in the order of the source, each call on the layout
  the call before has left; it stores the id each call returns under the name in
  \<open>m_extraDims\<close>; it changes nothing else in the filter, so \<open>m_mode\<close> stays as it was
  configured.
\<close>

theorem addDimensions_other_feature_set:
  assumes "is_set args (m_featuresArg f) = Inr False"
      and "m_featureSet f \<noteq> ''Dimensionality''"
      and r1: "reg layout ''Linearity'' = (d1, l1)"
      and r2: "reg l1 ''Planarity'' = (d2, l2)"
      and r3: "reg l2 ''Scattering'' = (d3, l3)"
      and r4: "reg l3 ''Verticality'' = (d4, l4)"
      and r5: "reg l4 ''Omnivariance'' = (d5, l5)"
      and r6: "reg l5 ''Sum'' = (d6, l6)"
      and r7: "reg l6 ''Eigenentropy'' = (d7, l7)"
      and r8: "reg l7 ''Anisotropy'' = (d8, l8)"
      and r9: "reg l8 ''SurfaceVariation'' = (d9, l9)"
      and r10: "reg l9 ''DemantkeVerticality'' = (d10, l10)"
      and r11: "reg l10 ''Density'' = (d11, l11)"
  shows "addDimensions reg args f layout =
           Inr (f\<lparr>m_extraDims := (m_extraDims f)
                (''Linearity'' \<mapsto> d1, ''Planarity'' \<mapsto> d2,
                 ''Scattering'' \<mapsto> d3, ''Verticality'' \<mapsto> d4,
                 ''Omnivariance'' \<mapsto> d5, ''Sum'' \<mapsto> d6,
                 ''Eigenentropy'' \<mapsto> d7, ''Anisotropy'' \<mapsto> d8,
                 ''SurfaceVariation'' \<mapsto> d9,
                 ''DemantkeVerticality'' \<mapsto> d10, ''Density'' \<mapsto> d11)\<rparr>, l11) \<and>
         (\<forall>f' layout'. addDimensions reg args f layout = Inr (f', layout') \<longrightarrow>
            m_mode f' = m_mode f \<and>
            dom (m_extraDims f') =
              dom (m_extraDims f) \<union>
               {''Linearity'', ''Planarity'', ''Scattering'', ''Verticality'',
                ''Omnivariance'', ''Sum'', ''Eigenentropy'', ''Anisotropy'',
                ''SurfaceVariation'', ''DemantkeVerticality'', ''Density''})"
proof -
  have "addDimensions reg args f layout =
      Inr (f\<lparr>m_extraDims := (m_extraDims f)
           (''Linearity'' \<mapsto> d1, ''Planarity'' \<mapsto> d2,
            ''Scattering'' \<mapsto> d3, ''Verticality'' \<mapsto> d4,
            ''Omnivariance'' \<mapsto> d5, ''Sum'' \<mapsto> d6,
            ''Eigenentropy'' \<mapsto> d7, ''Anisotropy'' \<mapsto> d8,
            ''SurfaceVariation'' \<mapsto> d9,
            ''DemantkeVerticality'' \<mapsto> d10, ''Density'' \<mapsto> d11)\<rparr>, l11)"
    using assms(1,2)
    by (simp add: addDimensions_def all_features_def r1 r2 r3 r4 r5 r6 r7 r8 r9 r10 r11)
  then show ?thesis by auto
qed

theorem addDimensions_other_feature_set_witness:
  "addDimensions sample_registerOrAssignDim (fst default_config)
     ((snd default_config)\<lparr>m_featureSet := ''all'', m_mode := ''NORM''\<rparr>) [] =
     Inr ((snd default_config)
            \<lparr>m_featureSet := ''all'', m_mode := ''NORM'',
             m_extraDims :=
            [''Linearity'' \<mapsto> 1, ''Planarity'' \<mapsto> 2,
             ''Scattering'' \<mapsto> 3, ''Verticality'' \<mapsto> 4,
             ''Omnivariance'' \<mapsto> 5, ''Sum'' \<mapsto> 6,
             ''Eigenentropy'' \<mapsto> 7, ''Anisotropy'' \<mapsto> 8,
             ''SurfaceVariation'' \<mapsto> 9,
             ''DemantkeVerticality'' \<mapsto> 10, ''Density'' \<mapsto> 11]\<rparr>,
          [''Linearity'', ''Planarity'', ''Scattering'', ''Verticality'',
          ''Omnivariance'', ''Sum'', ''Eigenentropy'', ''Anisotropy'',
          ''SurfaceVariation'', ''DemantkeVerticality'', ''Density'']) \<and>
   m_mode ((snd default_config)
            \<lparr>m_featureSet := ''all'', m_mode := ''NORM'',
             m_extraDims :=
            [''Linearity'' \<mapsto> 1, ''Planarity'' \<mapsto> 2,
             ''Scattering'' \<mapsto> 3, ''Verticality'' \<mapsto> 4,
             ''Omnivariance'' \<mapsto> 5, ''Sum'' \<mapsto> 6,
             ''Eigenentropy'' \<mapsto> 7, ''Anisotropy'' \<mapsto> 8,
             ''SurfaceVariation'' \<mapsto> 9,
             ''DemantkeVerticality'' \<mapsto> 10, ''Density'' \<mapsto> 11]\<rparr>) = ''NORM''"
proof -
  let ?f = "(snd default_config)\<lparr>m_featureSet := ''all'', m_mode := ''NORM''\<rparr>"
  have 1: "is_set (fst default_config) (m_featuresArg ?f) = Inr False"
    by (simp add: default_config_eq is_set_def)
  have 2: "m_featureSet ?f \<noteq> ''Dimensionality''"
    by simp
  have 3: "m_extraDims ?f = Map.empty"
    by (simp add: default_config_eq)
  have r1: "sample_registerOrAssignDim
      []
      ''Linearity'' =
      (1, [''Linearity''])"
    by (simp add: sample_registerOrAssignDim_def)
  have r2: "sample_registerOrAssignDim
      [''Linearity'']
      ''Planarity'' =
      (2, [''Linearity'', ''Planarity''])"
    by (simp add: sample_registerOrAssignDim_def)
  have r3: "sample_registerOrAssignDim
      [''Linearity'', ''Planarity'']
      ''Scattering'' =
      (3, [''Linearity'', ''Planarity'', ''Scattering''])"
    by (simp add: sample_registerOrAssignDim_def)
  have r4: "sample_registerOrAssignDim
      [''Linearity'', ''Planarity'', ''Scattering'']
      ''Verticality'' =
      (4, [''Linearity'', ''Planarity'', ''Scattering'', ''Verticality''])"
    by (simp add: sample_registerOrAssignDim_def)
  have r5: "sample_registerOrAssignDim
      [''Linearity'', ''Planarity'', ''Scattering'', ''Verticality'']
      ''Omnivariance'' =
      (5, [''Linearity'', ''Planarity'', ''Scattering'', ''Verticality'', ''Omnivariance''])"
    by (simp add: sample_registerOrAssignDim_def)
  have r6: "sample_registerOrAssignDim
      [''Linearity'', ''Planarity'', ''Scattering'', ''Verticality'', ''Omnivariance'']
      ''Sum'' =
      (6, [''Linearity'', ''Planarity'', ''Scattering'', ''Verticality'', ''Omnivariance'', ''Sum''])"
    by (simp add: sample_registerOrAssignDim_def)
  have r7: "sample_registerOrAssignDim
      [''Linearity'', ''Planarity'', ''Scattering'', ''Verticality'', ''Omnivariance'', ''Sum'']
      ''Eigenentropy'' =
      (7, [''Linearity'', ''Planarity'', ''Scattering'', ''Verticality'', ''Omnivariance'', ''Sum'', ''Eigenentropy''])"
    by (simp add: sample_registerOrAssignDim_def)
  have r8: "sample_registerOrAssignDim
      [''Linearity'', ''Planarity'', ''Scattering'', ''Verticality'', ''Omnivariance'', ''Sum'', ''Eigenentropy'']
      ''Anisotropy'' =
      (8, [''Linearity'', ''Planarity'', ''Scattering'', ''Verticality'', ''Omnivariance'', ''Sum'', ''Eigenentropy'', ''Anisotropy''])"
    by (simp add: sample_registerOrAssignDim_def)
  have r9: "sample_registerOrAssignDim
      [''Linearity'', ''Planarity'', ''Scattering'', ''Verticality'', ''Omnivariance'', ''Sum'', ''Eigenentropy'', ''Anisotropy'']
      ''SurfaceVariation'' =
      (9, [''Linearity'', ''Planarity'', ''Scattering'', ''Verticality'', ''Omnivariance'', ''Sum'', ''Eigenentropy'', ''Anisotropy'', ''SurfaceVariation''])"
    by (simp add: sample_registerOrAssignDim_def)
  have r10: "sample_registerOrAssignDim
      [''Linearity'', ''Planarity'', ''Scattering'', ''Verticality'', ''Omnivariance'', ''Sum'', ''Eigenentropy'', ''Anisotropy'', ''SurfaceVariation'']
      ''DemantkeVerticality'' =
      (10, [''Linearity'', ''Planarity'', ''Scattering'', ''Verticality'', ''Omnivariance'', ''Sum'', ''Eigenentropy'', ''Anisotropy'', ''SurfaceVariation'', ''DemantkeVerticality''])"
    by (simp add: sample_registerOrAssignDim_def)
  have r11: "sample_registerOrAssignDim
      [''Linearity'', ''Planarity'', ''Scattering'', ''Verticality'', ''Omnivariance'', ''Sum'', ''Eigenentropy'', ''Anisotropy'', ''SurfaceVariation'', ''DemantkeVerticality'']
      ''Density'' =
      (11, [''Linearity'', ''Planarity'', ''Scattering'', ''Verticality'', ''Omnivariance'', ''Sum'', ''Eigenentropy'', ''Anisotropy'', ''SurfaceVariation'', ''DemantkeVerticality'', ''Density''])"
    by (simp add: sample_registerOrAssignDim_def)
  show ?thesis
    using addDimensions_other_feature_set
      [OF 1 2 r1 r2 r3 r4 r5 r6 r7 r8 r9 r10 r11, unfolded 3]
    by simp
qed

section \<open>Choosing the neighbours\<close>

text \<open>
  C1. \<open>addArgs\<close> stores the \<^verbatim>\<open>Arg\<close> of \<open>features\<close> in \<open>m_featuresArg\<close> and assigns nothing
  to \<open>m_radiusArg\<close>. So in every configuration that it produces and that keeps
  \<open>optimized\<close> false, whatever the values of \<open>knn\<close>, \<open>stride\<close>, \<open>radius\<close>, \<open>min_k\<close> and
  \<open>mode\<close>, the test \<^verbatim>\<open>m_radiusArg->set()\<close> of \<open>setDimensionality\<close> reads through a pointer
  that points to no \<^verbatim>\<open>Arg\<close>, and no neighbour query is made.
\<close>

theorem setDimensionality_radiusArg_unassigned:
  "setDimensionality
     ((snd (addArgs args constructed))
        \<lparr>m_knn := k, m_stride := s, m_radius := r, m_minK := mk, m_mode := md\<rparr>)
     args' ext view id' = Inl invalid_pointer"
  by (simp add: setDimensionality_unfold find_neighbors_def is_set_def addArgs_def Let_def
      constructed_def)

text \<open>
  C6. In the radius search (\<open>optimized\<close> false, \<open>m_radiusArg\<close> pointing to an \<^verbatim>\<open>Arg\<close> that is
  set), a point with fewer than \<open>min_k\<close> neighbours in the radius is left as it is: no
  error, the view unchanged, and the loop goes on with the next point.
\<close>

theorem setDimensionality_too_few_in_radius:
  assumes "\<not> m_optimal f"
      and "is_set args (m_radiusArg f) = Inr True"
      and "m_minK f < 2 ^ 31"
      and "int (length (radius ext id' (m_radius f))) < m_minK f"
  shows "setDimensionality f args ext view id' = Inr view \<and>
         process_points f args ext (id' # ids) view = process_points f args ext ids view"
proof -
  have "0 \<le> m_minK f" "m_minK f < 2 ^ 64"
    using assms(3,4) by auto
  then have "unat (word_of_int (m_minK f) :: 64 word) = nat (m_minK f)"
    by (simp add: unat_eq_nat_uint uint_word_of_int take_bit_int_eq_self)
  then have "length (radius ext id' (m_radius f)) < unat (word_of_int (m_minK f) :: 64 word)"
    using assms(4) by simp
  then have "setDimensionality f args ext view id' = Inr view"
    using assms(1,2) by (simp add: setDimensionality_unfold find_neighbors_def Let_def)
  then show ?thesis by simp
qed

theorem setDimensionality_too_few_in_radius_witness:
  "setDimensionality (snd radius_config) (fst radius_config)
     (sample_collaborators Success (Finite 0, Finite 1, Finite 4)) sample_view 0 =
     Inr sample_view \<and>
   process_points (snd radius_config) (fst radius_config)
     (sample_collaborators Success (Finite 0, Finite 1, Finite 4)) [0, 1] sample_view =
   process_points (snd radius_config) (fst radius_config)
     (sample_collaborators Success (Finite 0, Finite 1, Finite 4)) [1] sample_view"
  using setDimensionality_too_few_in_radius [where f = "snd radius_config"
      and args = "fst radius_config"
      and ext = "sample_collaborators Success (Finite 0, Finite 1, Finite 4)"
      and id' = 0 and ids = "[1]" and view = sample_view]
  by (simp add: radius_config_def default_config_eq is_set_def sample_collaborators_def)

section \<open>Errors\<close>

lemma largest_clamped_zero:
  "deq (std_max ev2 (Finite 0)) (Finite 0) =
     (case ev2 of Finite x \<Rightarrow> x \<le> 0 | PosInf \<Rightarrow> False | NegInf \<Rightarrow> True | NaN \<Rightarrow> False)"
  by (cases ev2) (auto simp: std_max_def)

lemma errors_distinct: "cannot_decompose \<noteq> all_zero"
  by (simp add: cannot_decompose_def all_zero_def)

text \<open>
  C7. \<open>setDimensionality\<close> throws an error in exactly two cases, both after the
  neighbours were found: the solver does not report success ("Cannot perform eigen
  decomposition."); or it does and its largest eigenvalue, the last one, is 0 once the
  negative values are replaced by 0, that is, it is at most 0 ("Eigenvalues are all
  0."). When an error is thrown the view is as it was, no field written; the outcome
  is the same under every scale mode (it is decided before the eigenvalues are
  scaled), and it ends the loop over the points.
\<close>

theorem setDimensionality_throws_iff:
  "((setDimensionality f args ext view id' = Inl cannot_decompose) =
      (\<exists>ids. find_neighbors f args ext (point view id') id' = Inr (Some ids) \<and>
         info (solve ext (computeCovariance ext ids)) \<noteq> Success)) \<and>
   ((setDimensionality f args ext view id' = Inl all_zero) =
      (\<exists>ids ev0 ev1 ev2.
         find_neighbors f args ext (point view id') id' = Inr (Some ids) \<and>
         info (solve ext (computeCovariance ext ids)) = Success \<and>
         eigenvalues (solve ext (computeCovariance ext ids)) = (ev0, ev1, ev2) \<and>
         (case ev2 of Finite x \<Rightarrow> x \<le> 0 | PosInf \<Rightarrow> False | NegInf \<Rightarrow> True
          | NaN \<Rightarrow> False))) \<and>
   ((\<exists>msg. setDimensionality f args ext view id' = Inl (pdal_error msg)) =
      (setDimensionality f args ext view id' = Inl cannot_decompose \<or>
       setDimensionality f args ext view id' = Inl all_zero)) \<and>
   ((setDimensionality (f\<lparr>m_mode := mode\<rparr>) args ext view id' = Inl e) =
      (setDimensionality f args ext view id' = Inl e)) \<and>
   (setDimensionality f args ext view id' = Inl e \<longrightarrow>
      process_points f args ext (id' # ids') view = Inl e) \<and>
   (snd (setDimensionality_exc f args ext view id') = Some e \<longrightarrow>
      fst (setDimensionality_exc f args ext view id') = view \<and>
      setDimensionality f args ext view id' = Inl e)"
proof -
  have mode: "find_neighbors (f\<lparr>m_mode := mode\<rparr>) args ext p id' = find_neighbors f args ext p id'"
    for p
    by (simp add: find_neighbors_def cong: sum.case_cong bool.case_cong if_cong)
  have np: "find_neighbors f args ext (point view id') id' \<noteq> Inl (pdal_error msg)" for msg
    by (auto simp: find_neighbors_def is_set_def Let_def
        split: option.splits bool.splits if_splits)
  show ?thesis
  proof (cases "find_neighbors f args ext (point view id') id'")
    case (Inl e')
    then show ?thesis
      using np
      by (auto simp: setDimensionality_unfold setDimensionality_exc_def mode
          cannot_decompose_def all_zero_def)
  next
    case (Inr r)
    show ?thesis
    proof (cases r)
      case None
      then show ?thesis
        using Inr
        by (auto simp: setDimensionality_unfold setDimensionality_exc_def mode
            cannot_decompose_def all_zero_def)
    next
      case (Some ids)
      obtain ev0 ev1 ev2 where
        ev: "eigenvalues (solve ext (computeCovariance ext ids)) = (ev0, ev1, ev2)"
        by (cases "eigenvalues (solve ext (computeCovariance ext ids))") auto
      have z: "deq (fst (clamped_lambda (ev0, ev1, ev2))) (Finite 0) =
          (case ev2 of Finite x \<Rightarrow> x \<le> 0 | PosInf \<Rightarrow> False | NegInf \<Rightarrow> True
           | NaN \<Rightarrow> False)"
        by (simp add: largest_clamped_zero)
      show ?thesis
      proof (cases "info (solve ext (computeCovariance ext ids)) = Success")
        case False
        then show ?thesis
          using Inr Some errors_distinct
          by (auto simp: setDimensionality_unfold setDimensionality_exc_def mode Let_def
              cannot_decompose_def)
      next
        case True
        show ?thesis
        proof (cases "deq (fst (clamped_lambda (ev0, ev1, ev2))) (Finite 0)")
          case t: True
          then show ?thesis
            using Inr Some True ev z errors_distinct
            by (auto simp: setDimensionality_unfold setDimensionality_exc_def mode Let_def
                all_zero_def)
        next
          case n: False
          then show ?thesis
            using Inr Some True ev z
            by (auto simp: setDimensionality_unfold setDimensionality_exc_def mode Let_def)
        qed
      qed
    qed
  qed
qed

theorem setDimensionality_throws_iff_witness:
  "setDimensionality (snd optimized_config) (fst optimized_config)
      (sample_collaborators NoConvergence (Finite 0, Finite 1, Finite 4)) sample_view 0 =
      Inl cannot_decompose \<and>
   setDimensionality (snd optimized_config) (fst optimized_config)
      (sample_collaborators Success (Finite (- 3), Finite (- 2), Finite (- 1))) sample_view 0 =
      Inl all_zero \<and>
   fst (setDimensionality_exc (snd optimized_config) (fst optimized_config)
      (sample_collaborators Success (Finite (- 3), Finite (- 2), Finite (- 1))) sample_view 0) =
      sample_view \<and>
   \<not> (\<exists>msg. setDimensionality (snd optimized_config) (fst optimized_config)
      (sample_collaborators Success (Finite 0, Finite 1, Finite 4)) sample_view 0 =
      Inl (pdal_error msg))"
proof -
  let ?f = "snd optimized_config"
  let ?a = "fst optimized_config"
  let ?failing = "sample_collaborators NoConvergence (Finite 0, Finite 1, Finite 4)"
  let ?negative = "sample_collaborators Success (Finite (- 3), Finite (- 2), Finite (- 1))"
  let ?planar = "sample_collaborators Success (Finite 0, Finite 1, Finite 4)"
  note t1 = setDimensionality_throws_iff [where f = ?f and args = ?a and ext = ?failing
      and view = sample_view and id' = 0]
  note t2 = setDimensionality_throws_iff [where f = ?f and args = ?a and ext = ?negative
      and view = sample_view and id' = 0 and e = all_zero]
  note t3 = setDimensionality_throws_iff [where f = ?f and args = ?a and ext = ?planar
      and view = sample_view and id' = 0]
  have 1: "setDimensionality ?f ?a ?failing sample_view 0 = Inl cannot_decompose"
    using t1 by (simp add: sample_neighbors sample_solver)
  have 2: "setDimensionality ?f ?a ?negative sample_view 0 = Inl all_zero"
    using t2 by (simp add: sample_neighbors sample_solver)
  have "snd (setDimensionality_exc ?f ?a ?negative sample_view 0) = Some all_zero"
    using 2 by (simp add: setDimensionality_def split: prod.splits option.splits)
  then have 3: "fst (setDimensionality_exc ?f ?a ?negative sample_view 0) = sample_view"
    using t2 by blast
  have 4: "\<not> (\<exists>msg. setDimensionality ?f ?a ?planar sample_view 0 = Inl (pdal_error msg))"
    using t3 by (simp add: sample_neighbors sample_solver)
  show ?thesis using 1 2 3 4 by blast
qed

section \<open>Eigenvalues and features: properties\<close>

lemma valid_spectrumE:
  assumes "valid_spectrum lam"
  obtains a b c where "lam = (Finite a, Finite b, Finite c)" "b \<le> a" "c \<le> b" "0 \<le> c" "0 < a"
    "a \<le> DBL_MAX"
  using assms by (cases lam rule: valid_spectrum.cases) auto



text \<open>The sum of three values that are not negative: exact, or infinite.\<close>

lemma accumulate_nonneg:
  assumes "0 \<le> c" "c \<le> b" "b \<le> a"
  shows "accumulate (Finite a, Finite b, Finite c) =
           (if a + b + c \<le> DBL_MAX then Finite (a + b + c) else PosInf)"
  using assms DBL_MAX_large by (auto simp: overflow_def)

text \<open>A quotient and a difference that stay in range.\<close>

lemma ddiv_unit:
  assumes "0 \<le> x" "x \<le> y" "0 < y"
  shows "ddiv (Finite x) (Finite y) = Finite (x / y)" "0 \<le> x / y" "x / y \<le> 1"
proof -
  show 1: "0 \<le> x / y" and 2: "x / y \<le> 1" using assms by simp_all
  have "\<bar>x / y\<bar> \<le> 1000000" using 1 2 by simp
  then show "ddiv (Finite x) (Finite y) = Finite (x / y)"
    using assms(3) by (simp add: overflow_small)
qed

lemma dsub_in_range:
  assumes "0 \<le> y" "y \<le> x" "x \<le> DBL_MAX"
  shows "dsub (Finite x) (Finite y) = Finite (x - y)"
proof -
  have "\<bar>x - y\<bar> \<le> DBL_MAX" using assms by simp
  then show ?thesis by (simp add: dsub_def overflow_Finite)
qed

lemma sqrt_in_range:
  assumes "0 \<le> a" "a \<le> DBL_MAX"
  shows "sqrt a \<le> DBL_MAX"
proof (cases "a \<le> 1")
  case True
  then have "sqrt a \<le> 1" using assms(1) by simp
  then show ?thesis using DBL_MAX_large by linarith
next
  case False
  then have "a \<le> a\<^sup>2" using assms(1) by (simp add: power2_eq_square)
  then have "sqrt a \<le> sqrt (a\<^sup>2)" by (simp only: real_sqrt_le_iff)
  then show ?thesis using assms by simp
qed


lemma scale_valid:
  assumes "valid_spectrum lam" and "mode = ''NORM'' \<longrightarrow> accumulate lam \<noteq> PosInf"
  shows "valid_spectrum (scale mode (accumulate lam) lam)"
proof -
  from assms(1) obtain a b c where
    lam: "lam = (Finite a, Finite b, Finite c)" and o: "b \<le> a" "c \<le> b" "0 \<le> c" "0 < a"
    and r: "a \<le> DBL_MAX"
    by (rule valid_spectrumE)
  note acc = accumulate_nonneg [OF o(3,2,1)]
  show ?thesis
  proof (cases "mode = ''SQRT''")
    case True
    then show ?thesis using o r by (simp add: lam scale_def sqrt_in_range)
  next
    case False
    show ?thesis
    proof (cases "mode = ''NORM''")
      case n: False
      then show ?thesis using o r False by (simp add: lam scale_def)
    next
      case True
      then have t: "a + b + c \<le> DBL_MAX"
        using assms(2) by (simp add: lam acc del: accumulate.simps split: if_splits)
      have p: "0 < a + b + c" using o by linarith
      have q: "ddiv (Finite a) (Finite (a + b + c)) = Finite (a / (a + b + c))"
          "ddiv (Finite b) (Finite (a + b + c)) = Finite (b / (a + b + c))"
          "ddiv (Finite c) (Finite (a + b + c)) = Finite (c / (a + b + c))"
        by (rule ddiv_unit(1); use o p in linarith)+
      have "a / (a + b + c) \<le> 1" using o p by simp
      then have "a / (a + b + c) \<le> DBL_MAX" using DBL_MAX_large by linarith
      then show ?thesis
        using True t o p
        by (simp add: lam scale_def acc q divide_right_mono del: accumulate.simps ddiv.simps)
    qed
  qed
qed

lemma ratios_in_unit_interval:
  assumes "valid_spectrum lam"
  shows "in_unit_interval (linearity lam)" "in_unit_interval (planarity lam)"
    "in_unit_interval (scattering lam)" "in_unit_interval (anisotropy lam)"
proof -
  from assms obtain a b c where
    lam: "lam = (Finite a, Finite b, Finite c)" and o: "b \<le> a" "c \<le> b" "0 \<le> c" "0 < a"
    and r: "a \<le> DBL_MAX"
    by (rule valid_spectrumE)
  have d: "dsub (Finite a) (Finite b) = Finite (a - b)"
    "dsub (Finite b) (Finite c) = Finite (b - c)"
    "dsub (Finite a) (Finite c) = Finite (a - c)"
    using o r by (simp_all add: dsub_in_range)
  show "in_unit_interval (linearity lam)"
    using o ddiv_unit [of "a - b" a] by (simp add: lam d)
  show "in_unit_interval (planarity lam)"
    using o ddiv_unit [of "b - c" a] by (simp add: lam d)
  show "in_unit_interval (scattering lam)"
    using o ddiv_unit [of c a] by (simp add: lam)
  show "in_unit_interval (anisotropy lam)"
    using o ddiv_unit [of "a - c" a] by (simp add: lam d)
qed

lemma surfaceVariation_raw:
  assumes "valid_spectrum lam"
  shows "in_unit_interval (surfaceVariation lam (accumulate lam))"
proof -
  from assms obtain a b c where
    lam: "lam = (Finite a, Finite b, Finite c)" and o: "b \<le> a" "c \<le> b" "0 \<le> c" "0 < a"
    by (rule valid_spectrumE)
  note acc = accumulate_nonneg [OF o(3,2,1)]
  show ?thesis
  proof (cases "a + b + c \<le> DBL_MAX")
    case False
    then show ?thesis by (simp add: lam acc del: accumulate.simps)
  next
    case True
    then show ?thesis
      using o ddiv_unit [of c "a + b + c"] by (simp add: lam acc del: accumulate.simps)
  qed
qed

lemma set_feature_same: "m_extraDims f n = Some d \<Longrightarrow> set_feature f n v p d = v"
  by (simp add: set_feature_def setField_def)

lemma set_feature_other:
  assumes "inj_on (m_extraDims f) (dom (m_extraDims f))" and "m_extraDims f n = Some d"
      and "n' \<noteq> n"
  shows "set_feature f n' v p d = p d"
proof (cases "m_extraDims f n'")
  case None
  then show ?thesis by (simp add: set_feature_def)
next
  case (Some d')
  have "d' \<noteq> d"
  proof
    assume "d' = d"
    then have "m_extraDims f n' = m_extraDims f n" using Some assms(2) by simp
    moreover have "n' \<in> dom (m_extraDims f)" "n \<in> dom (m_extraDims f)"
      using Some assms(2) by auto
    ultimately have "n' = n" using assms(1) by (auto dest: inj_onD)
    then show False using assms(3) by simp
  qed
  then show ?thesis using Some by (simp add: set_feature_def setField_def)
qed

lemma write_features_slots:
  assumes inj: "inj_on (m_extraDims f) (dom (m_extraDims f))"
  shows "m_extraDims f ''Linearity'' = Some d \<Longrightarrow> write_features f ext lam s V p d = linearity lam"
    and "m_extraDims f ''Planarity'' = Some d \<Longrightarrow> write_features f ext lam s V p d = planarity lam"
    and "m_extraDims f ''Scattering'' = Some d \<Longrightarrow> write_features f ext lam s V p d = scattering lam"
    and "m_extraDims f ''Sum'' = Some d \<Longrightarrow> write_features f ext lam s V p d = s"
    and "m_extraDims f ''Eigenentropy'' = Some d \<Longrightarrow> write_features f ext lam s V p d = eigenentropy lam"
    and "m_extraDims f ''Anisotropy'' = Some d \<Longrightarrow> write_features f ext lam s V p d = anisotropy lam"
    and "m_extraDims f ''SurfaceVariation'' = Some d \<Longrightarrow> write_features f ext lam s V p d = surfaceVariation lam s"
  by (simp_all add: write_features_def Let_def set_feature_other [OF inj] set_feature_same)

lemma setDimensionality_success:
  assumes "find_neighbors f args ext (point view id') id' = Inr (Some ids)"
      and "info (solve ext (computeCovariance ext ids)) = Success"
      and "clamped_lambda (eigenvalues (solve ext (computeCovariance ext ids))) = lam"
      and "\<not> deq (fst lam) (Finite 0)"
  shows "setDimensionality f args ext view id' =
           Inr (view\<lparr>point := (point view)(id' :=
             write_features f ext (scale (m_mode f) (accumulate lam) lam) (accumulate lam)
               (eigenvectors (solve ext (computeCovariance ext ids))) (point view id'))\<rparr>)"
  using assms by (simp add: setDimensionality_unfold Let_def)

lemma valid_descending: "valid_spectrum lam \<Longrightarrow> descending_nonneg lam"
  by (cases lam rule: valid_spectrum.cases) auto

lemma valid_nonzero: "valid_spectrum lam \<Longrightarrow> \<not> deq (fst lam) (Finite 0)"
  by (cases lam rule: valid_spectrum.cases) auto

lemma overflow_pi: "overflow pi = Finite pi" "overflow (1 / pi) = Finite (1 / pi)"
proof -
  have "\<bar>pi\<bar> \<le> 1000000" using pi_less_4 pi_gt_zero by simp
  then show "overflow pi = Finite pi" by (rule overflow_small)
  have "0 \<le> 1 / pi" "1 / pi \<le> 1" using pi_ge_two by simp_all
  then have "\<bar>1 / pi\<bar> \<le> 1000000" by linarith
  then show "overflow (1 / pi) = Finite (1 / pi)" by (rule overflow_small)
qed

lemma density_only_when_optimized:
  assumes "\<not> m_optimal f" and "inj_on (m_extraDims f) (dom (m_extraDims f))"
      and "m_extraDims f ''Density'' = Some d"
  shows "write_features f ext lam s V p d = p d"
  using assms(1)
  by (simp add: write_features_def Let_def set_feature_other [OF assms(2,3)])

text \<open>
  C2. In precomputed mode, on a point whose \<open>OptimalKNN\<close> field is 0 and whose
  \<open>OptimalRadius\<close> field is 1, the value written to the Density field is \<open>1 / pi\<close>: the
  factor \<^verbatim>\<open>(4 / 3)\<close> of the source is a quotient of integers, 1. It is not
  \<open>(kopt + 1) / ((4/3) pi ropt^3)\<close>.
\<close>

theorem density_uses_integer_quotient:
  "\<exists>view'. setDimensionality (snd optimized_config) (fst optimized_config)
       (sample_collaborators Success (Finite 0, Finite 1, Finite 4)) sample_view 0 = Inr view' \<and>
     point view' 0 20 = Finite (1 / pi) \<and>
     point view' 0 20 \<noteq> Finite ((0 + 1) / (4 / 3 * pi * 1 ^ 3))"
proof -
  have "1 / pi \<noteq> 3 / (4 * pi)"
    using pi_gt_zero by (simp add: field_simps)
  then show ?thesis
    by (simp add: setDimensionality_unfold optimized_config_eq find_neighbors_def
        sample_collaborators_def sample_view_def sample_dims_def std_max_def scale_def Let_def
        write_features_def set_feature_def setField_def density_def arctan_one
        overflow_small overflow_pi)
qed

text \<open>
  C3. On eigenvalues 0, 1 and 4, unscaled, the value written to the Eigenentropy field
  is NaN: the term of the eigenvalue 0 is \<^verbatim>\<open>0 * std::log(0)\<close>, the product of 0 and minus
  infinity, and nothing replaces it by 0. It is not the sum over the other eigenvalues.
\<close>

theorem eigenentropy_of_zero_eigenvalue:
  "\<exists>view'. setDimensionality (snd optimized_config) (fst optimized_config)
       (sample_collaborators Success (Finite 0, Finite 1, Finite 4)) sample_view 0 = Inr view' \<and>
     point view' 0 16 = NaN \<and>
     point view' 0 16 \<noteq> Finite (- (1 * ln 1 + 4 * ln 4))"
  by (simp add: setDimensionality_unfold optimized_config_eq find_neighbors_def
      sample_collaborators_def sample_view_def sample_dims_def std_max_def scale_def Let_def
      write_features_def set_feature_def setField_def inf_times_def overflow_small)

text \<open>
  C4. Under every scale mode, when a point's features are written: \<open>sum\<close> is the sum of
  the three eigenvalues after \<^verbatim>\<open>std::max(., 0.0)\<close> and before any scaling; it is what
  the mode NORM divides each eigenvalue by, the value of the Sum field, and what the
  SurfaceVariation field divides the last scaled eigenvalue by. (The dimensions of
  the features are distinct.)
\<close>

theorem sum_captured_before_scaling:
  assumes nb: "find_neighbors f args ext (point view id') id' = Inr (Some ids)"
      and ok: "info (solve ext (computeCovariance ext ids)) = Success"
      and ev: "eigenvalues (solve ext (computeCovariance ext ids)) = (ev0, ev1, ev2)"
      and l0: "lam0 = (std_max ev2 (Finite 0), std_max ev1 (Finite 0), std_max ev0 (Finite 0))"
      and s: "sum_ev = dadd (dadd (dadd (Finite 0) (fst lam0)) (fst (snd lam0))) (snd (snd lam0))"
      and nz: "\<not> deq (fst lam0) (Finite 0)"
      and inj: "inj_on (m_extraDims f) (dom (m_extraDims f))"
  shows "\<exists>view' lam. setDimensionality f args ext view id' = Inr view' \<and>
           lam = scale (m_mode f) sum_ev lam0 \<and>
           (m_mode f = ''NORM'' \<longrightarrow> lam = map3 (\<lambda>v. ddiv v sum_ev) lam0) \<and>
           (\<forall>d. m_extraDims f ''Sum'' = Some d \<longrightarrow> point view' id' d = sum_ev) \<and>
           (\<forall>d. m_extraDims f ''SurfaceVariation'' = Some d \<longrightarrow>
              point view' id' d = ddiv (snd (snd lam)) sum_ev)"
proof -
  have c: "clamped_lambda (eigenvalues (solve ext (computeCovariance ext ids))) = lam0"
    by (simp add: ev l0)
  have a: "accumulate lam0 = sum_ev" by (simp add: l0 s)
  note r = setDimensionality_success [OF nb ok c nz, unfolded a]
  note w = write_features_slots [OF inj]
  have sv: "surfaceVariation lam sum_ev = ddiv (snd (snd lam)) sum_ev" for lam
    by (cases lam) simp
  show ?thesis
    unfolding r by (simp add: w sv scale_def)
qed

theorem sum_captured_before_scaling_witness:
  "\<exists>view'. setDimensionality ((snd optimized_config)\<lparr>m_mode := ''NORM''\<rparr>) (fst optimized_config)
       (sample_collaborators Success (Finite 0, Finite 1, Finite 4)) sample_view 0 = Inr view' \<and>
     scale ''NORM'' (Finite 5) (Finite 4, Finite 1, Finite 0) =
       (Finite (4 / 5), Finite (1 / 5), Finite 0) \<and>
     point view' 0 15 = Finite 5 \<and> point view' 0 18 = Finite 0"
proof -
  let ?f = "(snd optimized_config)\<lparr>m_mode := ''NORM''\<rparr>"
  let ?ext = "sample_collaborators Success (Finite 0, Finite 1, Finite 4)"
  have nb: "find_neighbors ?f (fst optimized_config) ?ext (point sample_view 0) 0 =
      Inr (Some [0, 1, 2])"
    by (simp add: optimized_config_eq find_neighbors_def sample_collaborators_def)
  have ok: "info (solve ?ext (computeCovariance ?ext [0, 1, 2])) = Success"
    by (simp add: sample_solver)
  have ev: "eigenvalues (solve ?ext (computeCovariance ?ext [0, 1, 2])) =
      (Finite 0, Finite 1, Finite 4)"
    by (simp add: sample_solver)
  have l0: "(Finite 4, Finite 1, Finite 0) =
      (std_max (Finite 4) (Finite 0), std_max (Finite 1) (Finite 0),
       std_max (Finite 0) (Finite 0))"
    by (simp add: std_max_def)
  have s: "Finite 5 = dadd (dadd (dadd (Finite 0) (fst (Finite 4, Finite 1, Finite 0)))
      (fst (snd (Finite 4, Finite 1, Finite 0)))) (snd (snd (Finite 4, Finite 1, Finite 0)))"
    by (simp add: overflow_small)
  have nz: "\<not> deq (fst (Finite 4, Finite 1, Finite 0)) (Finite 0)" by simp
  have inj: "inj_on (m_extraDims ?f) (dom (m_extraDims ?f))"
    by (simp add: optimized_config_eq sample_dims_inj)
  have d: "m_extraDims ?f ''Sum'' = Some 15" "m_extraDims ?f ''SurfaceVariation'' = Some 18"
    by (simp_all add: optimized_config_eq sample_dims_def)
  have m: "m_mode ?f = ''NORM''" by simp
  show ?thesis
    using sum_captured_before_scaling [OF nb ok ev l0 s nz inj] d unfolding m
    by (auto simp: scale_def overflow_small)
qed

text \<open>
  C5, as the code has it. For a valid spectrum (finite doubles \<open>l0 \<ge> l1 \<ge> l2 \<ge> 0\<close>,
  \<open>l0 > 0\<close>), the Linearity, Planarity, Anisotropy and Scattering fields are in the unit
  interval under the raw mode and under SQRT, and under NORM as long as the sum of the
  eigenvalues is not infinite; under the raw mode (neither SQRT nor NORM) the
  SurfaceVariation field is in the unit interval too.
  Under NORM the SurfaceVariation field is a scaled eigenvalue over the unscaled sum
  and can be above 1: it is \<open>10/9\<close> on three eigenvalues \<open>1/10\<close>. And under NORM, when
  the sum of the eigenvalues is infinite, on three eigenvalues \<open>2^1023\<close>, every scaled
  eigenvalue is 0 and the Linearity field is NaN.
\<close>

theorem ratio_features_in_unit_interval:
  assumes nb: "find_neighbors f args ext (point view id') id' = Inr (Some ids)"
      and ok: "info (solve ext (computeCovariance ext ids)) = Success"
      and l0: "clamped_lambda (eigenvalues (solve ext (computeCovariance ext ids))) = lam0"
      and v: "valid_spectrum lam0"
      and fin: "m_mode f = ''NORM'' \<longrightarrow> accumulate lam0 \<noteq> PosInf"
      and inj: "inj_on (m_extraDims f) (dom (m_extraDims f))"
  shows "\<exists>view'. setDimensionality f args ext view id' = Inr view' \<and>
           (\<forall>d. m_extraDims f ''Linearity'' = Some d \<longrightarrow> in_unit_interval (point view' id' d)) \<and>
           (\<forall>d. m_extraDims f ''Planarity'' = Some d \<longrightarrow> in_unit_interval (point view' id' d)) \<and>
           (\<forall>d. m_extraDims f ''Anisotropy'' = Some d \<longrightarrow> in_unit_interval (point view' id' d)) \<and>
           (\<forall>d. m_extraDims f ''Scattering'' = Some d \<longrightarrow> in_unit_interval (point view' id' d)) \<and>
           (m_mode f \<noteq> ''SQRT'' \<and> m_mode f \<noteq> ''NORM'' \<longrightarrow>
              (\<forall>d. m_extraDims f ''SurfaceVariation'' = Some d \<longrightarrow>
                 in_unit_interval (point view' id' d)))"
proof -
  define lam where "lam = scale (m_mode f) (accumulate lam0) lam0"
  have vl: "valid_spectrum lam" unfolding lam_def using v fin by (rule scale_valid)
  have raw: "lam = lam0" if "m_mode f \<noteq> ''SQRT''" "m_mode f \<noteq> ''NORM''"
    using that by (simp add: lam_def scale_def)
  note s = setDimensionality_success [OF nb ok l0 valid_nonzero [OF v], folded lam_def]
  note w = write_features_slots [OF inj]
  show ?thesis
    unfolding s
    using ratios_in_unit_interval [OF vl] surfaceVariation_raw [OF v] raw
    by (auto simp: w)
qed

theorem ratio_features_in_unit_interval_witness:
  "\<exists>view'. setDimensionality (snd optimized_config) (fst optimized_config)
       (sample_collaborators Success (Finite 0, Finite 1, Finite 4)) sample_view 0 = Inr view' \<and>
     in_unit_interval (point view' 0 10) \<and> in_unit_interval (point view' 0 11) \<and>
     in_unit_interval (point view' 0 12) \<and> in_unit_interval (point view' 0 17) \<and>
     in_unit_interval (point view' 0 18)"
proof -
  let ?f = "snd optimized_config"
  let ?ext = "sample_collaborators Success (Finite 0, Finite 1, Finite 4)"
  have ok: "info (solve ?ext (computeCovariance ?ext [0, 1, 2])) = Success"
    by (simp add: sample_solver)
  have l0: "clamped_lambda (eigenvalues (solve ?ext (computeCovariance ?ext [0, 1, 2]))) =
      (Finite 4, Finite 1, Finite 0)"
    by (simp add: sample_solver std_max_def)
  have v: "valid_spectrum (Finite 4, Finite 1, Finite 0)"
    using DBL_MAX_large by simp
  have m: "m_mode ?f \<noteq> ''SQRT'' \<and> m_mode ?f \<noteq> ''NORM''"
    by (simp add: optimized_config_eq)
  then have fin: "m_mode ?f = ''NORM'' \<longrightarrow> accumulate (Finite 4, Finite 1, Finite 0) \<noteq> PosInf"
    by simp
  have inj: "inj_on (m_extraDims ?f) (dom (m_extraDims ?f))"
    by (simp add: optimized_config_eq sample_dims_inj)
  have d: "m_extraDims ?f ''Linearity'' = Some 10" "m_extraDims ?f ''Planarity'' = Some 11"
    "m_extraDims ?f ''Scattering'' = Some 12" "m_extraDims ?f ''Anisotropy'' = Some 17"
    "m_extraDims ?f ''SurfaceVariation'' = Some 18"
    by (simp_all add: optimized_config_eq sample_dims_def)
  show ?thesis
    using ratio_features_in_unit_interval [OF sample_neighbors ok l0 v fin inj] d m by blast
qed

theorem surfaceVariation_above_one_when_scaled:
  "valid_spectrum (clamped_lambda (Finite (1 / 10), Finite (1 / 10), Finite (1 / 10))) \<and>
   (\<exists>view'. setDimensionality ((snd optimized_config)\<lparr>m_mode := ''NORM''\<rparr>) (fst optimized_config)
       (sample_collaborators Success (Finite (1 / 10), Finite (1 / 10), Finite (1 / 10)))
       sample_view 0 = Inr view' \<and>
     point view' 0 18 = Finite (10 / 9) \<and> \<not> in_unit_interval (point view' 0 18)) \<and>
   valid_spectrum (clamped_lambda (Finite (2 ^ 1023), Finite (2 ^ 1023), Finite (2 ^ 1023))) \<and>
   (\<exists>view'. setDimensionality ((snd optimized_config)\<lparr>m_mode := ''NORM''\<rparr>) (fst optimized_config)
       (sample_collaborators Success (Finite (2 ^ 1023), Finite (2 ^ 1023), Finite (2 ^ 1023)))
       sample_view 0 = Inr view' \<and>
     point view' 0 10 = NaN \<and> \<not> in_unit_interval (point view' 0 10))"
proof -
  let ?f = "(snd optimized_config)\<lparr>m_mode := ''NORM''\<rparr>"
  let ?small = "sample_collaborators Success (Finite (1 / 10), Finite (1 / 10), Finite (1 / 10))"
  let ?big = "sample_collaborators Success (Finite (2 ^ 1023), Finite (2 ^ 1023), Finite (2 ^ 1023))"
  let ?lam = "(Finite (2 ^ 1023), Finite (2 ^ 1023), Finite (2 ^ 1023))"
  have p1: "valid_spectrum (clamped_lambda (Finite (1 / 10), Finite (1 / 10), Finite (1 / 10)))"
    using DBL_MAX_large by (simp add: std_max_def)
  have p2: "\<exists>view'. setDimensionality ?f (fst optimized_config) ?small sample_view 0 = Inr view' \<and>
      point view' 0 18 = Finite (10 / 9) \<and> \<not> in_unit_interval (point view' 0 18)"
    by (simp add: setDimensionality_unfold optimized_config_eq find_neighbors_def
        sample_collaborators_def sample_view_def sample_dims_def std_max_def scale_def Let_def
        write_features_def set_feature_def setField_def overflow_small)
  have b1: "(2::real) ^ 1023 \<le> DBL_MAX"
    by (simp add: DBL_MAX_def)
  have b2: "\<not> (2::real) ^ 1023 + 2 ^ 1023 + 2 ^ 1023 \<le> DBL_MAX"
    by (simp add: DBL_MAX_def)
  have cl: "clamped_lambda ?lam = ?lam"
    by (simp add: std_max_def)
  have p3: "valid_spectrum (clamped_lambda ?lam)"
    unfolding cl using b1 by simp
  have acc: "accumulate ?lam = PosInf"
    using accumulate_nonneg [of "2 ^ 1023" "2 ^ 1023" "2 ^ 1023"] b2
    by (simp del: accumulate.simps)
  have nb: "find_neighbors ?f (fst optimized_config) ?big (point sample_view 0) 0 =
      Inr (Some [0, 1, 2])"
    by (simp add: optimized_config_eq find_neighbors_def sample_collaborators_def)
  have ok: "info (solve ?big (computeCovariance ?big [0, 1, 2])) = Success"
    by (simp add: sample_solver)
  have c: "clamped_lambda (eigenvalues (solve ?big (computeCovariance ?big [0, 1, 2]))) = ?lam"
    by (simp add: sample_solver std_max_def)
  have nz: "\<not> deq (fst ?lam) (Finite 0)"
    by simp
  have sc: "scale (m_mode ?f) (accumulate ?lam) ?lam = (Finite 0, Finite 0, Finite 0)"
    unfolding acc by (simp add: scale_def)
  have inj: "inj_on (m_extraDims ?f) (dom (m_extraDims ?f))"
    by (simp add: optimized_config_eq sample_dims_inj)
  have d: "m_extraDims ?f ''Linearity'' = Some 10"
    by (simp add: optimized_config_eq sample_dims_def)
  have p4: "\<exists>view'. setDimensionality ?f (fst optimized_config) ?big sample_view 0 = Inr view' \<and>
      point view' 0 10 = NaN \<and> \<not> in_unit_interval (point view' 0 10)"
    unfolding setDimensionality_success [OF nb ok c nz] sc
    by (simp add: write_features_slots(1) [OF inj d] dsub_def overflow_small)
  show ?thesis
    using p1 p2 p3 p4 by blast
qed




section \<open>The dispatcher: properties\<close>



























end
